theory Spec2Isabelle
  imports Main "HOL-Library.Word"
begin

section \<open>Python values and exceptions\<close>

text \<open>
  The tracker keeps its history as whatever \<^verbatim>\<open>json.load\<close> returned or as the dictionary
  \<^verbatim>\<open>track_video\<close> builds, so the history is modelled as a JSON value. A Python
  \<^verbatim>\<open>dict\<close> is an association list in insertion order (its keys are distinct), Python's
  \<^verbatim>\<open>None\<close> is \<open>JNull\<close>, an unbounded Python \<^verbatim>\<open>int\<close> is an \<open>int\<close>. A Python
  \<^verbatim>\<open>float\<close> is carried as the 64 bits of its IEEE-754 double: the program stores and
  returns such numbers and never computes with them.
\<close>

type_synonym pyfloat = "64 word"

datatype json =
    JNull
  | JBool bool
  | JInt int
  | JFloat pyfloat
  | JStr string
  | JArr "json list"
  | JObj "(string \<times> json) list"

text \<open>
  The exception classes that the library calls of this program raise, with Python's class
  hierarchy below \<^verbatim>\<open>Exception\<close>. \<^verbatim>\<open>IOError\<close> is Python 3's alias of \<^verbatim>\<open>OSError\<close>.
  \<open>mro c\<close> lists \<open>c\<close> and its base classes up to \<^verbatim>\<open>Exception\<close>; an \<^verbatim>\<open>except C\<close>
  clause catches an exception whose class has \<open>C\<close> in that list. Interrupts delivered to
  the process (\<^verbatim>\<open>KeyboardInterrupt\<close>, \<^verbatim>\<open>SystemExit\<close>), which are not below
  \<^verbatim>\<open>Exception\<close>, are outside the model.
\<close>

datatype exn_class =
    Exception
  | OSError
  | FileNotFoundError
  | PermissionError
  | IsADirectoryError
  | ValueError
  | JSONDecodeError
  | UnicodeError
  | UnicodeDecodeError
  | TypeError
  | AttributeError
  | SubprocessError
  | CalledProcessError

abbreviation IOError :: exn_class where
  "IOError \<equiv> OSError"

fun mro :: "exn_class \<Rightarrow> exn_class list" where
  "mro Exception = [Exception]"
| "mro OSError = [OSError, Exception]"
| "mro FileNotFoundError = [FileNotFoundError, OSError, Exception]"
| "mro PermissionError = [PermissionError, OSError, Exception]"
| "mro IsADirectoryError = [IsADirectoryError, OSError, Exception]"
| "mro ValueError = [ValueError, Exception]"
| "mro JSONDecodeError = [JSONDecodeError, ValueError, Exception]"
| "mro UnicodeError = [UnicodeError, ValueError, Exception]"
| "mro UnicodeDecodeError = [UnicodeDecodeError, UnicodeError, ValueError, Exception]"
| "mro TypeError = [TypeError, Exception]"
| "mro AttributeError = [AttributeError, Exception]"
| "mro SubprocessError = [SubprocessError, Exception]"
| "mro CalledProcessError = [CalledProcessError, SubprocessError, Exception]"

datatype pyexn = PyExn (exn_cls: exn_class) (exn_msg: string)

definition isinstance :: "pyexn \<Rightarrow> exn_class \<Rightarrow> bool" where
  "isinstance e c = (c \<in> set (mro (exn_cls e)))"

fun type_name :: "json \<Rightarrow> string" where
  "type_name JNull = ''NoneType''"
| "type_name (JBool b) = ''bool''"
| "type_name (JInt i) = ''int''"
| "type_name (JFloat x) = ''float''"
| "type_name (JStr s) = ''str''"
| "type_name (JArr xs) = ''list''"
| "type_name (JObj d) = ''dict''"

definition dict_get :: "(string \<times> json) list \<Rightarrow> string \<Rightarrow> json" where
  "dict_get d k = (case map_of d k of None \<Rightarrow> JNull | Some v \<Rightarrow> v)"


section \<open>Strings and \<^verbatim>\<open>os.path\<close> (posixpath)\<close>

text \<open>
  A Python \<^verbatim>\<open>str\<close> is modelled by the bytes of its UTF-8 encoding: an ASCII character is
  one byte below 128, every other character is a sequence of bytes from 128 on. No byte of
  such a sequence is an ASCII character, so the separators \<^verbatim>\<open>/\<close> and \<^verbatim>\<open>.\<close> stand in the
  bytes exactly where they stand in the \<^verbatim>\<open>str\<close>. The path functions are those of
  \<^verbatim>\<open>posixpath\<close> (Linux and Darwin hosts): separator \<^verbatim>\<open>/\<close>, extension separator \<^verbatim>\<open>.\<close>.
\<close>

definition is_ascii :: "char \<Rightarrow> bool" where
  "is_ascii c = (of_char c < (128::nat))"

text \<open>
  Lowering within ASCII: the letters \<^verbatim>\<open>A\<close> to \<^verbatim>\<open>Z\<close> become \<^verbatim>\<open>a\<close> to \<^verbatim>\<open>z\<close>, every other
  ASCII character stays as it is.
\<close>

definition ascii_lower_char :: "char \<Rightarrow> char" where
  "ascii_lower_char c =
     (case map_of (zip ''ABCDEFGHIJKLMNOPQRSTUVWXYZ'' ''abcdefghijklmnopqrstuvwxyz'') c of
        Some d \<Rightarrow> d
      | None \<Rightarrow> c)"

definition startswith :: "string \<Rightarrow> string \<Rightarrow> bool" where
  "startswith s pre = (take (length pre) s = pre)"

definition endswith :: "string \<Rightarrow> string \<Rightarrow> bool" where
  "endswith s suf = (length suf \<le> length s \<and> drop (length s - length suf) s = suf)"

text \<open>\<^verbatim>\<open>s.rfind(c)\<close>: the index of the last occurrence of \<open>c\<close>, or \<open>-1\<close>.\<close>

fun rfind :: "string \<Rightarrow> char \<Rightarrow> int" where
  "rfind [] c = -1"
| "rfind (x # xs) c =
     (let r = rfind xs c in
      if 0 \<le> r then r + 1 else if x = c then 0 else -1)"

text \<open>
  Python slices \<^verbatim>\<open>s[i:]\<close>, \<^verbatim>\<open>s[:j]\<close> and \<^verbatim>\<open>s[i:j]\<close>: a negative index counts from the end,
  and every index is clipped to the string.
\<close>

definition clip_index :: "string \<Rightarrow> int \<Rightarrow> nat" where
  "clip_index s i =
     (let n = int (length s) in nat (if i < 0 then max 0 (n + i) else min i n))"

definition slice_from :: "string \<Rightarrow> int \<Rightarrow> string" where
  "slice_from s i = drop (clip_index s i) s"

definition slice_to :: "string \<Rightarrow> int \<Rightarrow> string" where
  "slice_to s j = take (clip_index s j) s"

definition slice :: "string \<Rightarrow> int \<Rightarrow> int \<Rightarrow> string" where
  "slice s i j = take (clip_index s j - clip_index s i) (drop (clip_index s i) s)"

definition isabs :: "string \<Rightarrow> bool" where
  "isabs s = startswith s ''/''"

definition join :: "string \<Rightarrow> string \<Rightarrow> string" where
  "join a b =
     (if startswith b ''/'' then b
      else if a = [] \<or> endswith a ''/'' then a @ b
      else a @ ''/'' @ b)"

definition basename :: "string \<Rightarrow> string" where
  "basename p = (let i = rfind p CHR ''/'' + 1 in slice_from p i)"

text \<open>
  \<^verbatim>\<open>genericpath._splitext\<close>: the loop skips the leading dots of the last component and
  returns from inside at the first character that is not a dot; \<open>None\<close> is the loop running
  out, after which the function returns \<^verbatim>\<open>(p, p[:0])\<close>.
\<close>

function splitext_loop :: "string \<Rightarrow> int \<Rightarrow> int \<Rightarrow> (string \<times> string) option" where
  "splitext_loop p filenameIndex dotIndex =
     (if filenameIndex < dotIndex then
        (if slice p filenameIndex (filenameIndex + 1) \<noteq> ''.''
         then Some (slice_to p dotIndex, slice_from p dotIndex)
         else splitext_loop p (filenameIndex + 1) dotIndex)
      else None)"
  by pat_completeness auto
termination
  by (relation "measure (\<lambda>(p, filenameIndex, dotIndex). nat (dotIndex - filenameIndex))") auto

definition splitext :: "string \<Rightarrow> string \<times> string" where
  "splitext p =
     (let sepIndex = rfind p CHR ''/'';
          dotIndex = rfind p CHR ''.''
      in if dotIndex > sepIndex then
           (case splitext_loop p (sepIndex + 1) dotIndex of
              Some r \<Rightarrow> r
            | None \<Rightarrow> (p, slice_to p 0))
         else (p, slice_to p 0))"


section \<open>The host: file system, clock, platform\<close>

text \<open>
  Each method consults the host at most once per kind of call, so the host at the time of
  a call is a record of what each library call does then:
  \<^item> \<open>path_exists p\<close>: \<^verbatim>\<open>os.path.exists(p)\<close> (true of files and of directories);
  \<^item> \<open>abspath p\<close>: \<^verbatim>\<open>os.path.abspath(p)\<close>;
  \<^item> \<open>json_load p\<close>: the block \<^verbatim>\<open>with open(p, 'r') as f: json.load(f)\<close>, which returns the
    parsed value or raises: \<^verbatim>\<open>OSError\<close> when the file cannot be opened or read,
    \<^verbatim>\<open>UnicodeDecodeError\<close> when its bytes are not text in the encoding of \<^verbatim>\<open>open\<close>,
    \<^verbatim>\<open>JSONDecodeError\<close> when the decoded text is not a JSON document;
  \<^item> \<open>json_dump p v\<close>: the block \<^verbatim>\<open>with open(p, 'w') as f: json.dump(v, f, indent=4)\<close>,
    \<open>None\<close> when it completes;
  \<^item> \<open>now_isoformat\<close>: \<^verbatim>\<open>datetime.now().isoformat()\<close>;
  \<^item> \<open>platform_system\<close>: \<^verbatim>\<open>platform.system()\<close>;
  \<^item> \<open>subprocess_run argv\<close>: \<^verbatim>\<open>subprocess.run(argv, check=True)\<close>, \<open>None\<close> when it
    returns; \<open>startfile p\<close>: \<^verbatim>\<open>os.startfile(p)\<close>;
  \<^item> \<open>listdir p\<close>: \<^verbatim>\<open>os.listdir(p)\<close>;
  \<^item> \<open>unicode_lower s\<close>: \<^verbatim>\<open>s.lower()\<close> for a \<^verbatim>\<open>str\<close> with a character beyond ASCII,
    which the interpreter lowers by its Unicode database: the lowering of a character may
    be several characters and may depend on its neighbours, and the KELVIN SIGN (U+212A)
    lowers to the ASCII letter \<^verbatim>\<open>k\<close>.
\<close>

record host =
  path_exists :: "string \<Rightarrow> bool"
  abspath :: "string \<Rightarrow> string"
  json_load :: "string \<Rightarrow> pyexn + json"
  json_dump :: "string \<Rightarrow> json \<Rightarrow> pyexn option"
  now_isoformat :: string
  platform_system :: string
  subprocess_run :: "string list \<Rightarrow> pyexn option"
  startfile :: "string \<Rightarrow> pyexn option"
  listdir :: "string \<Rightarrow> pyexn + string list"
  unicode_lower :: "string \<Rightarrow> string"

text \<open>
  \<^verbatim>\<open>s.lower()\<close>: a \<^verbatim>\<open>str\<close> of ASCII characters only is lowered letter by letter, any
  other \<^verbatim>\<open>str\<close> by the Unicode database of the host.
\<close>

definition lower :: "host \<Rightarrow> string \<Rightarrow> string" where
  "lower h s = (if list_all is_ascii s then map ascii_lower_char s else unicode_lower h s)"

text \<open>What a call does to the outside: lines printed, documents dumped, players launched.\<close>

datatype event =
    Printed string
  | Dump string json
  | Run "string list"
  | StartFile string

record tracker =
  video_folder :: string
  tracking_file :: string
  history :: json

text \<open>
  A method call yields the object after the call, the events in order, and either the
  exception that left the method or the value returned.
\<close>

record 'a run =
  after :: tracker
  trace :: "event list"
  result :: "pyexn + 'a"


section \<open>class VideoTracker\<close>

definition load_history :: "host \<Rightarrow> string \<Rightarrow> pyexn + json" where
  "load_history h tracking_file_of_self =
     (if path_exists h tracking_file_of_self then
        (case json_load h tracking_file_of_self of
           Inr v \<Rightarrow> Inr v
         | Inl e \<Rightarrow>
             if isinstance e JSONDecodeError \<or> isinstance e IOError then Inr (JObj [])
             else Inl e)
      else Inr (JObj []))"

definition init :: "host \<Rightarrow> string \<Rightarrow> pyexn + tracker" where
  "init h folder =
     (let vf = abspath h folder;
          tf = join vf ''.tracker.json''
      in case load_history h tf of
           Inl e \<Rightarrow> Inl e
         | Inr v \<Rightarrow> Inr \<lparr>video_folder = vf, tracking_file = tf, history = v\<rparr>)"

definition save_history :: "host \<Rightarrow> tracker \<Rightarrow> unit run" where
  "save_history h self =
     (case json_dump h (tracking_file self) (history self) of
        None \<Rightarrow>
          \<lparr>after = self,
           trace = [Dump (tracking_file self) (history self)],
           result = Inr ()\<rparr>
      | Some e \<Rightarrow>
          if isinstance e IOError then
            \<lparr>after = self,
             trace = [Dump (tracking_file self) (history self),
                      Printed (''Error saving tracking file: '' @ exn_msg e)],
             result = Inr ()\<rparr>
          else
            \<lparr>after = self,
             trace = [Dump (tracking_file self) (history self)],
             result = Inl e\<rparr>)"

text \<open>
  \<^verbatim>\<open>track_video(video_file, timestamp=None, watched_percentage=0)\<close>: the default
  timestamp \<^verbatim>\<open>None\<close> is \<open>JNull\<close>.
\<close>

definition track_video :: "host \<Rightarrow> tracker \<Rightarrow> string \<Rightarrow> json \<Rightarrow> json \<Rightarrow> unit run" where
  "track_video h self video_file0 timestamp0 watched_percentage =
     (let video_file =
            (if \<not> isabs video_file0 then join (video_folder self) video_file0
             else video_file0)
      in if \<not> path_exists h video_file then
           \<lparr>after = self,
            trace = [Printed (''File not found: '' @ video_file)],
            result = Inr ()\<rparr>
         else
           let timestamp =
                 (if timestamp0 = JNull then JStr (now_isoformat h) else timestamp0);
               self' = self\<lparr>history :=
                 JObj [(basename video_file,
                        JObj [(''last_watched'', timestamp),
                              (''watched_percentage'', watched_percentage),
                              (''full_path'', JStr video_file)])]\<rparr>
           in save_history h self')"

fun truthy :: "string option \<Rightarrow> bool" where
  "truthy None = False"
| "truthy (Some s) = (s \<noteq> [])"

definition get_last_watched :: "tracker \<Rightarrow> string option \<Rightarrow> pyexn + json" where
  "get_last_watched self video_file =
     (if truthy video_file then
        (let video_file' = basename (the video_file) in
         case history self of
           JObj d \<Rightarrow> Inr (dict_get d video_file')
         | v \<Rightarrow> Inl (PyExn AttributeError
                   ([CHR 0x27] @ type_name v @ [CHR 0x27]
                    @ '' object has no attribute '' @ [CHR 0x27] @ ''get'' @ [CHR 0x27])))
      else Inr (history self))"

text \<open>
  The \<^verbatim>\<open>try\<close> block of \<^verbatim>\<open>play_video\<close>: the launch for the platform, with
  \<^verbatim>\<open>except Exception\<close> printing what it catches. The second component is an exception
  that the clause does not catch.
\<close>

definition except_Exception :: "pyexn option \<Rightarrow> event list \<times> pyexn option" where
  "except_Exception r =
     (case r of
        None \<Rightarrow> ([], None)
      | Some e \<Rightarrow>
          if isinstance e Exception then ([Printed (''Error playing video: '' @ exn_msg e)], None)
          else ([], Some e))"

definition launch :: "host \<Rightarrow> string \<Rightarrow> event list \<times> pyexn option" where
  "launch h video_file =
     (let system = platform_system h in
      if system = ''Darwin'' then
        (let (ev, x) = except_Exception (subprocess_run h [''open'', video_file])
         in (Run [''open'', video_file] # ev, x))
      else if system = ''Windows'' then
        (let (ev, x) = except_Exception (startfile h video_file)
         in (StartFile video_file # ev, x))
      else if system = ''Linux'' then
        (let (ev, x) = except_Exception (subprocess_run h [''xdg-open'', video_file])
         in (Run [''xdg-open'', video_file] # ev, x))
      else ([Printed (''Unsupported operating system: '' @ system)], None))"

definition play_video :: "host \<Rightarrow> tracker \<Rightarrow> string \<Rightarrow> unit run" where
  "play_video h self video_file0 =
     (let video_file =
            (if \<not> isabs video_file0 then join (video_folder self) video_file0
             else video_file0)
      in case launch h video_file of
           (ev, Some e) \<Rightarrow> \<lparr>after = self, trace = ev, result = Inl e\<rparr>
         | (ev, None) \<Rightarrow>
             (let r = track_video h self video_file JNull (JInt 0)
              in r\<lparr>trace := ev @ trace r\<rparr>))"

definition video_extensions :: "string list" where
  "video_extensions = [''.mp4'', ''.avi'', ''.mkv'', ''.mov'', ''.wmv'']"

definition list_videos :: "host \<Rightarrow> tracker \<Rightarrow> pyexn + string list" where
  "list_videos h self =
     (case listdir h (video_folder self) of
        Inl e \<Rightarrow> Inl e
      | Inr names \<Rightarrow>
          Inr (filter (\<lambda>f. lower h (snd (splitext f)) \<in> set video_extensions) names))"


section \<open>Notions of the specification\<close>

text \<open>
  The resolved path of an identifier: the identifier itself when it is absolute, otherwise
  the tracked folder joined with it.
\<close>

definition resolved :: "tracker \<Rightarrow> string \<Rightarrow> string" where
  "resolved self video_file =
     (if isabs video_file then video_file else join (video_folder self) video_file)"

text \<open>The entries of a history that is a mapping (no entries otherwise).\<close>

fun entries :: "json \<Rightarrow> (string \<times> json) list" where
  "entries (JObj d) = d"
| "entries v = []"

text \<open>
  Two strings are equal up to the case of their letters when lowering makes them equal. A
  name has a video extension when its extension equals one of the listed extensions up to
  the case of its letters.
\<close>

definition ci_equal :: "host \<Rightarrow> string \<Rightarrow> string \<Rightarrow> bool" where
  "ci_equal h a b = (lower h a = lower h b)"

definition has_video_extension :: "host \<Rightarrow> string \<Rightarrow> bool" where
  "has_video_extension h f = (\<exists>e \<in> set video_extensions. ci_equal h (snd (splitext f)) e)"


section \<open>Example hosts\<close>

text \<open>The UTF-8 bytes of the KELVIN SIGN, U+212A.\<close>

definition kelvin_sign :: string where
  "kelvin_sign = [CHR 0xE2, CHR 0x84, CHR 0xAA]"

text \<open>An episode whose extension \<^verbatim>\<open>.MKV\<close> is written with the KELVIN SIGN.\<close>

definition kelvin_episode :: string where
  "kelvin_episode = ''ep3.M'' @ kelvin_sign @ ''V''"

text \<open>
  \<^verbatim>\<open>s.lower()\<close> for a \<^verbatim>\<open>str\<close> whose characters beyond ASCII are KELVIN SIGNs: each of
  them becomes \<^verbatim>\<open>k\<close>, the ASCII letters are lowered.
\<close>

fun kelvin_lower :: "string \<Rightarrow> string" where
  "kelvin_lower (a # b # c # s) =
     (if [a, b, c] = kelvin_sign then CHR ''k'' # kelvin_lower s
      else ascii_lower_char a # kelvin_lower (b # c # s))"
| "kelvin_lower (a # s) = ascii_lower_char a # kelvin_lower s"
| "kelvin_lower [] = []"

text \<open>
  A Linux host with a folder \<^verbatim>\<open>/videos\<close> that holds three episodes, a text file and a
  hidden file; the extension of the third episode is written with a KELVIN SIGN. No
  history file yet, every write succeeds, the player starts.
\<close>

definition linux_host :: host where
  "linux_host =
     \<lparr>path_exists = (\<lambda>p. p \<in> set [''/videos'', ''/videos/'', ''/videos/ep1.mp4'',
                                     ''/videos/ep2.MKV'', ''/videos/notes.txt'',
                                     ''/videos/.mp4'']),
      abspath = (\<lambda>p. p),
      json_load = (\<lambda>p. Inl (PyExn FileNotFoundError ''No such file or directory'')),
      json_dump = (\<lambda>p v. None),
      now_isoformat = ''2024-01-01T12:00:00.250000'',
      platform_system = ''Linux'',
      subprocess_run = (\<lambda>argv. None),
      startfile = (\<lambda>p. Some (PyExn AttributeError ''module os has no attribute startfile'')),
      listdir = (\<lambda>p. if p = ''/videos''
                       then Inr [''ep1.mp4'', ''notes.txt'', ''ep2.MKV'', ''.mp4'',
                                 kelvin_episode]
                       else Inl (PyExn FileNotFoundError ''No such file or directory'')),
      unicode_lower = kelvin_lower\<rparr>"

text \<open>The same host with a read-only folder: every write raises \<^verbatim>\<open>PermissionError\<close>.\<close>

definition readonly_host :: host where
  "readonly_host =
     linux_host\<lparr>json_dump := (\<lambda>p v. Some (PyExn PermissionError ''Permission denied''))\<rparr>"

text \<open>The same host where the player exits with a non-zero status.\<close>

definition failing_player_host :: host where
  "failing_player_host =
     linux_host\<lparr>subprocess_run :=
       (\<lambda>argv. Some (PyExn CalledProcessError ''returned non-zero exit status 1''))\<rparr>"

text \<open>The same files on a platform that the dispatcher does not know.\<close>

definition freebsd_host :: host where
  "freebsd_host = linux_host\<lparr>platform_system := ''FreeBSD''\<rparr>"

text \<open>
  The same host with a history file \<^verbatim>\<open>/videos/.tracker.json\<close> that holds the JSON array
  \<^verbatim>\<open>[1, 2]\<close>.
\<close>

definition array_history_host :: host where
  "array_history_host =
     linux_host\<lparr>path_exists := (\<lambda>p. p = ''/videos/.tracker.json'' \<or> path_exists linux_host p),
                json_load := (\<lambda>p. if p = ''/videos/.tracker.json''
                                    then Inr (JArr [JInt 1, JInt 2])
                                    else json_load linux_host p)\<rparr>"

text \<open>
  The same host with a history file that holds the single byte \<^verbatim>\<open>0xFF\<close>: \<^verbatim>\<open>open\<close>
  succeeds, and the read inside \<^verbatim>\<open>json.load\<close> raises \<^verbatim>\<open>UnicodeDecodeError\<close>.
\<close>

definition undecodable_history_host :: host where
  "undecodable_history_host =
     linux_host\<lparr>path_exists := (\<lambda>p. p = ''/videos/.tracker.json'' \<or> path_exists linux_host p),
                json_load := (\<lambda>p. if p = ''/videos/.tracker.json''
                                    then Inl (PyExn UnicodeDecodeError
                                           ''utf-8 codec cannot decode byte 0xff in position 0'')
                                    else json_load linux_host p)\<rparr>"

definition videos_tracker :: tracker where
  "videos_tracker =
     \<lparr>video_folder = ''/videos'',
      tracking_file = ''/videos/.tracker.json'',
      history = JObj []\<rparr>"


section \<open>Facts about the string and path functions\<close>

lemma rfind_ge: "- 1 \<le> rfind p c"
  by (induction p) (auto simp: Let_def)

lemma rfind_lt: "rfind p c < int (length p)"
  by (induction p) (auto simp: Let_def)

lemma rfind_negative: "\<not> 0 \<le> rfind p c \<Longrightarrow> rfind p c = - 1"
  using rfind_ge [of p c] by linarith

lemma rfind_absent: "rfind p c = - 1 \<longleftrightarrow> c \<notin> set p"
  by (induction p) (auto simp: Let_def dest: rfind_negative)

lemma rfind_tail: "c \<notin> set (drop (nat (rfind p c + 1)) p)"
proof (induction p)
  case Nil
  then show ?case by simp
next
  case (Cons x xs)
  show ?case
  proof (cases "0 \<le> rfind xs c")
    case True
    then have "nat (rfind xs c + 1 + 1) = Suc (nat (rfind xs c + 1))" by simp
    with True Cons show ?thesis by (simp add: Let_def)
  next
    case False
    then have "rfind xs c = - 1" by (rule rfind_negative)
    then show ?thesis using rfind_absent [of xs c] by (auto simp: Let_def)
  qed
qed

lemma basename_drop: "basename p = drop (nat (rfind p CHR ''/'' + 1)) p"
  using rfind_ge [of p "CHR ''/''"] rfind_lt [of p "CHR ''/''"]
  by (simp add: basename_def slice_from_def clip_index_def Let_def min_def)

lemma basename_no_sep: "CHR ''/'' \<notin> set (basename p)"
  by (simp add: basename_drop rfind_tail)

lemma basename_idem: "basename (basename p) = basename p"
proof -
  have "rfind (basename p) CHR ''/'' = - 1"
    using basename_no_sep rfind_absent by blast
  then show ?thesis by (simp add: basename_drop [of "basename p"])
qed

lemma basename_bare: "CHR ''/'' \<notin> set name \<Longrightarrow> basename name = name"
  using rfind_absent [of name "CHR ''/''"] by (simp add: basename_drop)

lemma isabs_join: "isabs a \<Longrightarrow> isabs (join a b)"
  by (cases a) (auto simp: isabs_def join_def startswith_def)

lemma lower_video_extensions: "map (lower h) video_extensions = video_extensions"
  by (simp add: video_extensions_def lower_def is_ascii_def ascii_lower_char_def)

lemma has_video_extension_code:
  "has_video_extension h f \<longleftrightarrow> lower h (snd (splitext f)) \<in> set video_extensions"
proof -
  have "has_video_extension h f
          \<longleftrightarrow> lower h (snd (splitext f)) \<in> set (map (lower h) video_extensions)"
    by (auto simp: has_video_extension_def ci_equal_def)
  then show ?thesis by (simp only: lower_video_extensions)
qed

lemma lower_ascii: "list_all is_ascii s \<Longrightarrow> lower h s = map ascii_lower_char s"
  by (simp add: lower_def)

lemma has_video_extension_ascii:
  assumes "list_all is_ascii (snd (splitext f))"
  shows "has_video_extension h f
           \<longleftrightarrow> map ascii_lower_char (snd (splitext f)) \<in> set video_extensions"
  by (simp add: has_video_extension_code lower_ascii [OF assms])


section \<open>Facts about the methods\<close>

lemma isinstance_Exception: "isinstance e Exception"
  by (cases e; cases "exn_cls e") (auto simp: isinstance_def)

lemma save_history_after: "after (save_history h self) = self"
  by (simp add: save_history_def split: option.split)

lemma track_video_found:
  assumes "path_exists h (resolved self v)"
  shows "track_video h self v t pc =
           save_history h (self\<lparr>history :=
             JObj [(basename (resolved self v),
                    JObj [(''last_watched'', if t = JNull then JStr (now_isoformat h) else t),
                          (''watched_percentage'', pc),
                          (''full_path'', JStr (resolved self v))])]\<rparr>)"
  using assms by (cases "isabs v") (simp_all add: track_video_def resolved_def Let_def)

lemma track_video_missing:
  assumes "\<not> path_exists h (resolved self v)"
  shows "track_video h self v t pc =
           \<lparr>after = self,
            trace = [Printed (''File not found: '' @ resolved self v)],
            result = Inr ()\<rparr>"
  using assms by (cases "isabs v") (simp_all add: track_video_def resolved_def Let_def)

lemma track_video_folder: "video_folder (after (track_video h self v t pc)) = video_folder self"
  by (cases "path_exists h (resolved self v)")
     (simp_all add: track_video_found track_video_missing save_history_after)

lemma resolved_after_track:
  "resolved (after (track_video h self v t pc)) b = resolved self b"
  by (simp add: resolved_def track_video_folder)

lemma resolved_idem: "isabs (video_folder self) \<Longrightarrow> resolved self (resolved self v) = resolved self v"
  by (simp add: resolved_def isabs_join)

lemma resolved_abs: "isabs p \<Longrightarrow> resolved self p = p"
  by (simp add: resolved_def)

lemma get_last_watched_dict:
  assumes "history self = JObj d" and "s \<noteq> []"
  shows "get_last_watched self (Some s) = Inr (dict_get d (basename s))"
  using assms by (simp add: get_last_watched_def)

lemma get_last_watched_falsy:
  "get_last_watched self None = Inr (history self)"
  "get_last_watched self (Some []) = Inr (history self)"
  by (simp_all add: get_last_watched_def)

lemma save_history_io_error:
  assumes "json_dump h (tracking_file self) (history self) = Some e" and "isinstance e IOError"
  shows "result (save_history h self) = Inr ()"
    and "trace (save_history h self)
           = [Dump (tracking_file self) (history self),
              Printed (''Error saving tracking file: '' @ exn_msg e)]"
  using assms by (simp_all add: save_history_def)

lemma save_history_completes:
  assumes "json_dump h (tracking_file self) (history self) = None"
  shows "result (save_history h self) = Inr ()"
    and "trace (save_history h self) = [Dump (tracking_file self) (history self)]"
  using assms by (simp_all add: save_history_def)

lemma except_Exception_catches:
  "snd (except_Exception r) = None"
  "except_Exception (Some e) = ([Printed (''Error playing video: '' @ exn_msg e)], None)"
  "except_Exception None = ([], None)"
  by (simp_all add: except_Exception_def isinstance_Exception split: option.split)

lemma launch_never_raises: "snd (launch h p) = None"
  by (simp add: launch_def Let_def split_beta except_Exception_catches)

lemma play_video_unfold:
  "play_video h self v =
     (track_video h self (resolved self v) JNull (JInt 0))
       \<lparr>trace := fst (launch h (resolved self v))
                 @ trace (track_video h self (resolved self v) JNull (JInt 0))\<rparr>"
proof -
  obtain ev where l: "launch h (resolved self v) = (ev, None)"
    using launch_never_raises [of h "resolved self v"] by (cases "launch h (resolved self v)") simp
  show ?thesis
  proof (cases "isabs v")
    case True
    with l show ?thesis by (simp add: play_video_def resolved_def Let_def)
  next
    case False
    with l show ?thesis by (simp add: play_video_def resolved_def Let_def)
  qed
qed

lemma load_history_missing:
  "\<not> path_exists h f \<Longrightarrow> load_history h f = Inr (JObj [])"
  by (simp add: load_history_def)

lemma load_history_caught:
  assumes "json_load h f = Inl e" and "isinstance e JSONDecodeError \<or> isinstance e IOError"
  shows "load_history h f = Inr (JObj [])"
  using assms by (simp add: load_history_def)

lemma load_history_uncaught:
  assumes "path_exists h f" and "json_load h f = Inl e"
    and "\<not> isinstance e JSONDecodeError" and "\<not> isinstance e IOError"
  shows "load_history h f = Inl e"
  using assms by (simp add: load_history_def)


section \<open>The example folder\<close>

lemma resolved_ep1: "resolved videos_tracker ''ep1.mp4'' = ''/videos/ep1.mp4''"
  by (simp add: resolved_def videos_tracker_def isabs_def startswith_def join_def endswith_def)

lemma resolved_nope: "resolved videos_tracker ''nope.mp4'' = ''/videos/nope.mp4''"
  by (simp add: resolved_def videos_tracker_def isabs_def startswith_def join_def endswith_def)

lemma resolved_abs_ep2: "resolved videos_tracker ''/videos/ep2.MKV'' = ''/videos/ep2.MKV''"
  by (simp add: resolved_def isabs_def startswith_def)

lemma basename_ep1: "basename ''/videos/ep1.mp4'' = ''ep1.mp4''"
  by (simp add: basename_def slice_from_def clip_index_def)

lemma basename_ep2: "basename ''/videos/ep2.MKV'' = ''ep2.MKV''"
  by (simp add: basename_def slice_from_def clip_index_def)


section \<open>The claims\<close>

subsection \<open>Single-entry overwrite\<close>

text \<open>
  Claim C1. For all identifiers \<open>a\<close> and \<open>b\<close> whose resolved paths exist, \<open>track(a)\<close>
  followed by \<open>track(b)\<close> leaves a history with exactly one entry, keyed by the basename
  of the resolved \<open>b\<close>; the entry of \<open>a\<close> is gone when its key differs. Already the first
  call, whatever history the tracker held before, leaves a single-entry mapping. The two
  calls may see different hosts (time passes, files are written), and timestamps and
  percentages are arbitrary.
\<close>

theorem track_video_single_entry:
  assumes a: "path_exists h1 (resolved self a)"
    and b: "path_exists h2 (resolved self b)"
  shows "\<exists>ra rb.
           history (after (track_video h1 self a ta pa)) = JObj [(basename (resolved self a), ra)]
         \<and> history (after (track_video h2 (after (track_video h1 self a ta pa)) b tb pb))
             = JObj [(basename (resolved self b), rb)]
         \<and> (basename (resolved self a) \<noteq> basename (resolved self b) \<longrightarrow>
              map_of (entries (history
                (after (track_video h2 (after (track_video h1 self a ta pa)) b tb pb))))
                (basename (resolved self a)) = None)"
proof -
  let ?s1 = "after (track_video h1 self a ta pa)"
  have b': "path_exists h2 (resolved ?s1 b)"
    using b by (simp add: resolved_after_track)
  have 1: "history ?s1 = JObj [(basename (resolved self a),
             JObj [(''last_watched'', if ta = JNull then JStr (now_isoformat h1) else ta),
                   (''watched_percentage'', pa),
                   (''full_path'', JStr (resolved self a))])]"
    by (simp add: track_video_found [OF a] save_history_after)
  have 2: "history (after (track_video h2 ?s1 b tb pb)) = JObj [(basename (resolved self b),
             JObj [(''last_watched'', if tb = JNull then JStr (now_isoformat h2) else tb),
                   (''watched_percentage'', pb),
                   (''full_path'', JStr (resolved self b))])]"
    by (simp add: track_video_found [OF b'] save_history_after resolved_after_track)
  show ?thesis
    unfolding 1 2 by simp
qed

theorem track_video_single_entry_witness:
  "\<exists>ra rb.
     history (after (track_video linux_host videos_tracker ''ep1.mp4'' JNull (JInt 0)))
       = JObj [(''ep1.mp4'', ra)]
   \<and> history (after (track_video readonly_host
        (after (track_video linux_host videos_tracker ''ep1.mp4'' JNull (JInt 0)))
        ''ep2.MKV'' JNull (JInt 0)))
       = JObj [(''ep2.MKV'', rb)]
   \<and> map_of (entries (history (after (track_video readonly_host
        (after (track_video linux_host videos_tracker ''ep1.mp4'' JNull (JInt 0)))
        ''ep2.MKV'' JNull (JInt 0))))) ''ep1.mp4'' = None"
proof -
  have ra: "resolved videos_tracker ''ep1.mp4'' = ''/videos/ep1.mp4''"
    by (simp add: resolved_def videos_tracker_def isabs_def startswith_def join_def endswith_def)
  have rb: "resolved videos_tracker ''ep2.MKV'' = ''/videos/ep2.MKV''"
    by (simp add: resolved_def videos_tracker_def isabs_def startswith_def join_def endswith_def)
  have ba: "basename ''/videos/ep1.mp4'' = ''ep1.mp4''"
    by (simp add: basename_def slice_from_def clip_index_def)
  have bb: "basename ''/videos/ep2.MKV'' = ''ep2.MKV''"
    by (simp add: basename_def slice_from_def clip_index_def)
  have a: "path_exists linux_host (resolved videos_tracker ''ep1.mp4'')"
    by (simp add: ra linux_host_def)
  have b: "path_exists readonly_host (resolved videos_tracker ''ep2.MKV'')"
    by (simp add: rb readonly_host_def linux_host_def)
  show ?thesis
    using track_video_single_entry [OF a b, of JNull "JInt 0" JNull "JInt 0"]
    by (simp add: ra rb ba bb)
qed


subsection \<open>A missing file is rejected\<close>

text \<open>
  Claim C2. When the resolved path of the identifier does not exist, \<open>track\<close> prints
  "File not found" with the resolved path and returns: the tracker, and so its history,
  is the one before the call, nothing is raised, and the trace has no dump of the history.
\<close>

theorem track_video_missing_file:
  assumes "\<not> path_exists h (resolved self v)"
  shows "after (track_video h self v t pc) = self
       \<and> history (after (track_video h self v t pc)) = history self
       \<and> trace (track_video h self v t pc) = [Printed (''File not found: '' @ resolved self v)]
       \<and> result (track_video h self v t pc) = Inr ()
       \<and> (\<forall>f d. Dump f d \<notin> set (trace (track_video h self v t pc)))"
  by (simp add: track_video_missing [OF assms])

theorem track_video_missing_file_witness:
  "after (track_video linux_host videos_tracker ''nope.mp4'' JNull (JInt 0)) = videos_tracker
 \<and> history (after (track_video linux_host videos_tracker ''nope.mp4'' JNull (JInt 0))) = JObj []
 \<and> trace (track_video linux_host videos_tracker ''nope.mp4'' JNull (JInt 0))
      = [Printed ''File not found: /videos/nope.mp4'']
 \<and> result (track_video linux_host videos_tracker ''nope.mp4'' JNull (JInt 0)) = Inr ()
 \<and> (\<forall>f d. Dump f d \<notin> set (trace (track_video linux_host videos_tracker ''nope.mp4'' JNull (JInt 0))))"
proof -
  have "\<not> path_exists linux_host (resolved videos_tracker ''nope.mp4'')"
    by (simp add: resolved_nope linux_host_def)
  moreover have "history videos_tracker = JObj []"
    by (simp add: videos_tracker_def)
  ultimately show ?thesis
    using track_video_missing_file [of linux_host videos_tracker "''nope.mp4''" JNull "JInt 0"]
    by (simp add: resolved_nope)
qed


subsection \<open>Loading a damaged history file\<close>

text \<open>
  Claim C3 says that \<open>load()\<close> returns an empty mapping, and never raises, when the history
  file is missing, unreadable or not valid JSON. The code does so for a missing file and
  for the two exception classes it names, \<open>JSONDecodeError\<close> and \<open>IOError\<close>
  (\<open>load_history_missing\<close>, \<open>load_history_caught\<close>). A history file whose bytes are not
  text in the encoding of \<open>open\<close>, such as the single byte \<open>0xFF\<close>, is not valid JSON
  either, and there \<open>json.load\<close> raises \<open>UnicodeDecodeError\<close>, a \<open>ValueError\<close> that is
  neither of the two: it leaves \<open>load()\<close> and the constructor.
\<close>

theorem load_history_undecodable_file:
  "load_history undecodable_history_host ''/videos/.tracker.json''
     = Inl (PyExn UnicodeDecodeError ''utf-8 codec cannot decode byte 0xff in position 0'')
 \<and> init undecodable_history_host ''/videos''
     = Inl (PyExn UnicodeDecodeError ''utf-8 codec cannot decode byte 0xff in position 0'')"
proof -
  let ?e = "PyExn UnicodeDecodeError ''utf-8 codec cannot decode byte 0xff in position 0''"
  have e: "path_exists undecodable_history_host ''/videos/.tracker.json''"
    and l: "json_load undecodable_history_host ''/videos/.tracker.json'' = Inl ?e"
    and a: "abspath undecodable_history_host ''/videos'' = ''/videos''"
    by (simp_all add: undecodable_history_host_def linux_host_def)
  have n: "\<not> isinstance ?e JSONDecodeError" "\<not> isinstance ?e IOError"
    by (simp_all add: isinstance_def)
  have j: "join ''/videos'' ''.tracker.json'' = ''/videos/.tracker.json''"
    by (simp add: join_def startswith_def endswith_def)
  have 1: "load_history undecodable_history_host ''/videos/.tracker.json'' = Inl ?e"
    using e l n by (rule load_history_uncaught)
  then have "init undecodable_history_host ''/videos'' = Inl ?e"
    by (simp add: init_def a j)
  with 1 show ?thesis by simp
qed


subsection \<open>Basename normalization\<close>

text \<open>
  Claim C4. A file tracked by its absolute path is found again under its bare filename:
  when the path is absolute, exists and names a file (its last component, the basename,
  is not empty), \<open>getLastWatched\<close> of the basename returns the record that \<open>track\<close> just
  stored under that key, with the path as \<open>full_path\<close>.
\<close>

theorem track_then_get_last_watched:
  assumes "isabs p" and "path_exists h p" and "basename p \<noteq> []"
  shows "\<exists>r. map_of (entries (history (after (track_video h self p t pc)))) (basename p) = Some r
           \<and> get_last_watched (after (track_video h self p t pc)) (Some (basename p)) = Inr r
           \<and> r = JObj [(''last_watched'', if t = JNull then JStr (now_isoformat h) else t),
                        (''watched_percentage'', pc),
                        (''full_path'', JStr p)]"
proof -
  let ?s = "after (track_video h self p t pc)"
  let ?r = "JObj [(''last_watched'', if t = JNull then JStr (now_isoformat h) else t),
                  (''watched_percentage'', pc),
                  (''full_path'', JStr p)]"
  have e: "path_exists h (resolved self p)"
    using assms by (simp add: resolved_abs)
  have hist: "history ?s = JObj [(basename p, ?r)]"
    using assms(1) by (simp add: track_video_found [OF e] save_history_after resolved_abs)
  have "get_last_watched ?s (Some (basename p)) = Inr (dict_get [(basename p, ?r)] (basename (basename p)))"
    using hist assms(3) by (rule get_last_watched_dict)
  then have "get_last_watched ?s (Some (basename p)) = Inr ?r"
    by (simp add: basename_idem dict_get_def)
  with hist show ?thesis by simp
qed

theorem track_then_get_last_watched_witness:
  "\<exists>r. map_of (entries (history (after
           (track_video linux_host videos_tracker ''/videos/ep2.MKV'' JNull (JInt 0))))) ''ep2.MKV''
         = Some r
     \<and> get_last_watched (after
           (track_video linux_host videos_tracker ''/videos/ep2.MKV'' JNull (JInt 0)))
           (Some ''ep2.MKV'') = Inr r
     \<and> r = JObj [(''last_watched'', JStr ''2024-01-01T12:00:00.250000''),
                  (''watched_percentage'', JInt 0),
                  (''full_path'', JStr ''/videos/ep2.MKV'')]"
proof -
  have a: "isabs ''/videos/ep2.MKV''"
    by (simp add: isabs_def startswith_def)
  have e: "path_exists linux_host ''/videos/ep2.MKV''"
    by (simp add: linux_host_def)
  have b: "basename ''/videos/ep2.MKV'' \<noteq> []"
    by (simp add: basename_ep2)
  have n: "now_isoformat linux_host = ''2024-01-01T12:00:00.250000''"
    by (simp add: linux_host_def)
  from track_then_get_last_watched [OF a e b, of videos_tracker JNull "JInt 0"] show ?thesis
    by (simp add: basename_ep2 n)
qed


subsection \<open>Queries\<close>

text \<open>
  Claim C5, as stated, fails at the empty string: \<open>getLastWatched("")\<close> takes the branch
  of the missing identifier and returns the whole history, here the empty mapping, and not
  the null result of a key without entry.
\<close>

theorem get_last_watched_empty_string:
  "get_last_watched videos_tracker (Some '''') = Inr (JObj [])
 \<and> get_last_watched videos_tracker (Some '''')
      \<noteq> Inr (dict_get (entries (history videos_tracker)) (basename ''''))"
  by (simp add: get_last_watched_def videos_tracker_def dict_get_def)

text \<open>
  Claim C5, amended. On a history that is a mapping, \<open>getLastWatched\<close> with a non-empty
  identifier returns the record stored under the basename of the identifier, or null when
  the key has no entry; with no identifier, and with the empty string, it returns the
  whole mapping.
\<close>

theorem get_last_watched_spec:
  assumes "history self = JObj d"
  shows "(s \<noteq> [] \<longrightarrow>
            get_last_watched self (Some s)
              = Inr (case map_of d (basename s) of Some r \<Rightarrow> r | None \<Rightarrow> JNull))
       \<and> get_last_watched self (Some []) = Inr (JObj d)
       \<and> get_last_watched self None = Inr (JObj d)"
  using assms by (simp add: get_last_watched_def dict_get_def)

theorem get_last_watched_spec_witness:
  "get_last_watched (videos_tracker\<lparr>history := JObj [(''ep1.mp4'', JInt 7)]\<rparr>)
     (Some ''/videos/ep1.mp4'') = Inr (JInt 7)
 \<and> get_last_watched (videos_tracker\<lparr>history := JObj [(''ep1.mp4'', JInt 7)]\<rparr>)
     (Some ''ep2.MKV'') = Inr JNull
 \<and> get_last_watched (videos_tracker\<lparr>history := JObj [(''ep1.mp4'', JInt 7)]\<rparr>)
     (Some []) = Inr (JObj [(''ep1.mp4'', JInt 7)])
 \<and> get_last_watched (videos_tracker\<lparr>history := JObj [(''ep1.mp4'', JInt 7)]\<rparr>)
     None = Inr (JObj [(''ep1.mp4'', JInt 7)])"
proof -
  let ?s = "videos_tracker\<lparr>history := JObj [(''ep1.mp4'', JInt 7)]\<rparr>"
  have h: "history ?s = JObj [(''ep1.mp4'', JInt 7)]" by simp
  have b: "basename ''ep2.MKV'' = ''ep2.MKV''"
    by (simp add: basename_def slice_from_def clip_index_def)
  show ?thesis
    using get_last_watched_spec [OF h, of "''/videos/ep1.mp4''"]
          get_last_watched_spec [OF h, of "''ep2.MKV''"]
    by (simp add: basename_ep1 b)
qed


subsection \<open>Listing the videos\<close>

text \<open>
  Claim C6. When the folder can be listed, \<open>listVideos\<close> returns the names of the listing,
  in the listing's order, whose extension (the second component of \<open>splitext\<close>) equals one
  of \<open>.mp4\<close>, \<open>.avi\<close>, \<open>.mkv\<close>, \<open>.mov\<close>, \<open>.wmv\<close> up to the case of its letters: every such
  name of the listing is returned and no other name is. The case of letters is the one of
  \<open>str.lower\<close>, which knows the letters beyond ASCII; the statement holds for every
  Unicode database of the host.
\<close>

theorem list_videos_exact:
  assumes "listdir h (video_folder self) = Inr names"
  shows "\<exists>vs. list_videos h self = Inr vs
            \<and> vs = filter (has_video_extension h) names
            \<and> (\<forall>f. f \<in> set vs \<longleftrightarrow> f \<in> set names \<and> has_video_extension h f)"
proof -
  have "filter (\<lambda>f. lower h (snd (splitext f)) \<in> set video_extensions) names
          = filter (has_video_extension h) names"
    by (rule filter_cong) (simp_all add: has_video_extension_code)
  then have "list_videos h self = Inr (filter (has_video_extension h) names)"
    using assms by (simp add: list_videos_def)
  then show ?thesis by simp
qed

theorem list_videos_exact_witness:
  "\<exists>vs. list_videos linux_host videos_tracker = Inr vs
      \<and> vs = [''ep1.mp4'', ''ep2.MKV'', kelvin_episode]
      \<and> ''notes.txt'' \<notin> set vs \<and> ''.mp4'' \<notin> set vs"
proof -
  have l: "listdir linux_host (video_folder videos_tracker)
             = Inr [''ep1.mp4'', ''notes.txt'', ''ep2.MKV'', ''.mp4'',
                    kelvin_episode]"
    by (simp add: linux_host_def videos_tracker_def)
  have u: "unicode_lower linux_host = kelvin_lower"
    by (simp add: linux_host_def)
  have s1: "splitext ''ep1.mp4'' = (''ep1'', ''.mp4'')"
    by (simp add: splitext_def slice_def slice_to_def slice_from_def clip_index_def)
  have s2: "splitext ''notes.txt'' = (''notes'', ''.txt'')"
    by (simp add: splitext_def slice_def slice_to_def slice_from_def clip_index_def)
  have s3: "splitext ''ep2.MKV'' = (''ep2'', ''.MKV'')"
    by (simp add: splitext_def slice_def slice_to_def slice_from_def clip_index_def)
  have s4: "splitext ''.mp4'' = (''.mp4'', [])"
    by (simp add: splitext_def slice_def slice_to_def slice_from_def clip_index_def)
  have s5: "splitext kelvin_episode = (''ep3'', ''.M'' @ kelvin_sign @ ''V'')"
    by (simp add: kelvin_episode_def kelvin_sign_def splitext_def slice_def slice_to_def
        slice_from_def clip_index_def)
  have k: "lower linux_host (''.M'' @ kelvin_sign @ ''V'') = ''.mkv''"
    by (simp add: lower_def u kelvin_sign_def is_ascii_def ascii_lower_char_def)
  have v1: "has_video_extension linux_host ''ep1.mp4''"
    by (simp add: has_video_extension_code s1 video_extensions_def lower_def is_ascii_def
        ascii_lower_char_def)
  have v2: "\<not> has_video_extension linux_host ''notes.txt''"
    by (simp add: has_video_extension_code s2 video_extensions_def lower_def is_ascii_def
        ascii_lower_char_def)
  have v3: "has_video_extension linux_host ''ep2.MKV''"
    by (simp add: has_video_extension_code s3 video_extensions_def lower_def is_ascii_def
        ascii_lower_char_def)
  have v4: "\<not> has_video_extension linux_host ''.mp4''"
    by (simp add: has_video_extension_code s4 video_extensions_def lower_def is_ascii_def
        ascii_lower_char_def)
  have v5: "has_video_extension linux_host kelvin_episode"
    by (simp only: has_video_extension_code s5 snd_conv k) (simp add: video_extensions_def)
  have n: "kelvin_episode \<noteq> ''notes.txt''" "kelvin_episode \<noteq> ''.mp4''"
    by (simp_all add: kelvin_episode_def)
  from list_videos_exact [OF l] show ?thesis
    by (simp add: v1 v2 v3 v4 v5 n [symmetric])
qed


subsection \<open>Playback always tracks\<close>

text \<open>
  Claim C7. Whatever the platform and whatever the launch does, \<open>play_video\<close> goes on to
  \<open>track\<close> the resolved file with the default timestamp and percentage: its final tracker
  and its result are those of that \<open>track\<close> call, and its trace is the launch followed by
  the trace of that call. The launch itself never raises out of the \<open>try\<close> block: an
  exception of the launch is printed as "Error playing video: ...", an unsupported
  platform is printed as such. So when the file exists (the folder being absolute), the
  history afterwards is the entry of the file with the current time and percentage 0.
\<close>

theorem play_video_always_tracks:
  "after (play_video h self v) = after (track_video h self (resolved self v) JNull (JInt 0))
 \<and> result (play_video h self v) = result (track_video h self (resolved self v) JNull (JInt 0))
 \<and> trace (play_video h self v)
      = fst (launch h (resolved self v))
        @ trace (track_video h self (resolved self v) JNull (JInt 0))
 \<and> snd (launch h (resolved self v)) = None
 \<and> (\<forall>e. platform_system h = ''Darwin'' \<and> subprocess_run h [''open'', resolved self v] = Some e
        \<or> platform_system h = ''Windows'' \<and> startfile h (resolved self v) = Some e
        \<or> platform_system h = ''Linux'' \<and> subprocess_run h [''xdg-open'', resolved self v] = Some e
      \<longrightarrow> Printed (''Error playing video: '' @ exn_msg e) \<in> set (trace (play_video h self v)))
 \<and> (platform_system h \<notin> {''Darwin'', ''Windows'', ''Linux''} \<longrightarrow>
       fst (launch h (resolved self v))
         = [Printed (''Unsupported operating system: '' @ platform_system h)])
 \<and> (isabs (video_folder self) \<and> path_exists h (resolved self v) \<longrightarrow>
       history (after (play_video h self v))
         = JObj [(basename (resolved self v),
                  JObj [(''last_watched'', JStr (now_isoformat h)),
                        (''watched_percentage'', JInt 0),
                        (''full_path'', JStr (resolved self v))])])"
proof -
  let ?p = "resolved self v"
  let ?t = "track_video h self ?p JNull (JInt 0)"
  have u: "play_video h self v = ?t\<lparr>trace := fst (launch h ?p) @ trace ?t\<rparr>"
    by (rule play_video_unfold)
  have 1: "after (play_video h self v) = after ?t"
    and 2: "result (play_video h self v) = result ?t"
    and 3: "trace (play_video h self v) = fst (launch h ?p) @ trace ?t"
    unfolding u by simp_all
  have 4: "snd (launch h ?p) = None"
    by (rule launch_never_raises)
  have 5: "\<forall>e. platform_system h = ''Darwin'' \<and> subprocess_run h [''open'', ?p] = Some e
        \<or> platform_system h = ''Windows'' \<and> startfile h ?p = Some e
        \<or> platform_system h = ''Linux'' \<and> subprocess_run h [''xdg-open'', ?p] = Some e
      \<longrightarrow> Printed (''Error playing video: '' @ exn_msg e) \<in> set (trace (play_video h self v))"
    unfolding 3 by (auto simp: launch_def except_Exception_catches)
  have 6: "platform_system h \<notin> {''Darwin'', ''Windows'', ''Linux''} \<longrightarrow>
       fst (launch h ?p) = [Printed (''Unsupported operating system: '' @ platform_system h)]"
    by (simp add: launch_def)
  have 7: "isabs (video_folder self) \<and> path_exists h ?p \<longrightarrow>
       history (after (play_video h self v))
         = JObj [(basename ?p,
                  JObj [(''last_watched'', JStr (now_isoformat h)),
                        (''watched_percentage'', JInt 0),
                        (''full_path'', JStr ?p)])]"
  proof (intro impI, elim conjE)
    assume a: "isabs (video_folder self)" and e: "path_exists h ?p"
    have r: "resolved self ?p = ?p"
      using a by (rule resolved_idem)
    have e': "path_exists h (resolved self ?p)"
      using e by (simp only: r)
    show "history (after (play_video h self v))
         = JObj [(basename ?p,
                  JObj [(''last_watched'', JStr (now_isoformat h)),
                        (''watched_percentage'', JInt 0),
                        (''full_path'', JStr ?p)])]"
      unfolding 1 by (simp add: track_video_found [OF e'] save_history_after r)
  qed
  from 1 2 3 4 5 6 7 show ?thesis by blast
qed

theorem play_video_always_tracks_witness:
  "trace (play_video failing_player_host videos_tracker ''ep1.mp4'')
     = [Run [''xdg-open'', ''/videos/ep1.mp4''],
        Printed ''Error playing video: returned non-zero exit status 1'']
       @ trace (track_video failing_player_host videos_tracker ''/videos/ep1.mp4'' JNull (JInt 0))
 \<and> Printed ''Error playing video: returned non-zero exit status 1''
       \<in> set (trace (play_video failing_player_host videos_tracker ''ep1.mp4''))
 \<and> history (after (play_video failing_player_host videos_tracker ''ep1.mp4''))
     = JObj [(''ep1.mp4'',
              JObj [(''last_watched'', JStr ''2024-01-01T12:00:00.250000''),
                    (''watched_percentage'', JInt 0),
                    (''full_path'', JStr ''/videos/ep1.mp4'')])]
 \<and> fst (launch freebsd_host ''/videos/ep1.mp4'')
     = [Printed ''Unsupported operating system: FreeBSD'']
 \<and> history (after (play_video freebsd_host videos_tracker ''ep1.mp4''))
     = JObj [(''ep1.mp4'',
              JObj [(''last_watched'', JStr ''2024-01-01T12:00:00.250000''),
                    (''watched_percentage'', JInt 0),
                    (''full_path'', JStr ''/videos/ep1.mp4'')])]"
proof -
  note A = play_video_always_tracks [of failing_player_host videos_tracker "''ep1.mp4''",
      unfolded resolved_ep1]
  note B = play_video_always_tracks [of freebsd_host videos_tracker "''ep1.mp4''",
      unfolded resolved_ep1]
  note A3 = A [THEN conjunct2, THEN conjunct2, THEN conjunct1]
  note A5 = A [THEN conjunct2, THEN conjunct2, THEN conjunct2, THEN conjunct2, THEN conjunct1,
      rule_format]
  note A7 = A [THEN conjunct2, THEN conjunct2, THEN conjunct2, THEN conjunct2, THEN conjunct2,
      THEN conjunct2, rule_format]
  note B6 = B [THEN conjunct2, THEN conjunct2, THEN conjunct2, THEN conjunct2, THEN conjunct2,
      THEN conjunct1, rule_format]
  note B7 = B [THEN conjunct2, THEN conjunct2, THEN conjunct2, THEN conjunct2, THEN conjunct2,
      THEN conjunct2, rule_format]
  have f: "isabs (video_folder videos_tracker)"
    by (simp add: videos_tracker_def isabs_def startswith_def)
  have e1: "path_exists failing_player_host ''/videos/ep1.mp4''"
    and e2: "path_exists freebsd_host ''/videos/ep1.mp4''"
    by (simp_all add: failing_player_host_def freebsd_host_def linux_host_def)
  have n: "now_isoformat failing_player_host = ''2024-01-01T12:00:00.250000''"
          "now_isoformat freebsd_host = ''2024-01-01T12:00:00.250000''"
    by (simp_all add: failing_player_host_def freebsd_host_def linux_host_def)
  have s1: "platform_system failing_player_host = ''Linux''"
    and r1: "subprocess_run failing_player_host [''xdg-open'', ''/videos/ep1.mp4'']
               = Some (PyExn CalledProcessError ''returned non-zero exit status 1'')"
    and s2: "platform_system freebsd_host = ''FreeBSD''"
    by (simp_all add: failing_player_host_def freebsd_host_def linux_host_def)
  have l: "fst (launch failing_player_host ''/videos/ep1.mp4'')
             = [Run [''xdg-open'', ''/videos/ep1.mp4''],
                Printed ''Error playing video: returned non-zero exit status 1'']"
    by (simp add: launch_def s1 r1 except_Exception_catches)
  have 1: "trace (play_video failing_player_host videos_tracker ''ep1.mp4'')
     = [Run [''xdg-open'', ''/videos/ep1.mp4''],
        Printed ''Error playing video: returned non-zero exit status 1'']
       @ trace (track_video failing_player_host videos_tracker ''/videos/ep1.mp4'' JNull (JInt 0))"
    using A3 by (simp only: l)
  have 2: "Printed ''Error playing video: returned non-zero exit status 1''
       \<in> set (trace (play_video failing_player_host videos_tracker ''ep1.mp4''))"
    using A5 [of "PyExn CalledProcessError ''returned non-zero exit status 1''"] s1 r1 by simp
  have 3: "history (after (play_video failing_player_host videos_tracker ''ep1.mp4''))
     = JObj [(''ep1.mp4'',
              JObj [(''last_watched'', JStr ''2024-01-01T12:00:00.250000''),
                    (''watched_percentage'', JInt 0),
                    (''full_path'', JStr ''/videos/ep1.mp4'')])]"
    using A7 [OF conjI [OF f e1]] by (simp only: basename_ep1 n)
  have 4: "fst (launch freebsd_host ''/videos/ep1.mp4'')
     = [Printed ''Unsupported operating system: FreeBSD'']"
    using B6 by (simp add: s2)
  have 5: "history (after (play_video freebsd_host videos_tracker ''ep1.mp4''))
     = JObj [(''ep1.mp4'',
              JObj [(''last_watched'', JStr ''2024-01-01T12:00:00.250000''),
                    (''watched_percentage'', JInt 0),
                    (''full_path'', JStr ''/videos/ep1.mp4'')])]"
    using B7 [OF conjI [OF f e2]] by (simp only: basename_ep1 n)
  from 1 2 3 4 5 show ?thesis by (intro conjI)
qed


subsection \<open>Persisting\<close>

text \<open>
  Claim C8. \<open>persist()\<close> never changes the tracker. When the write completes or raises an
  I/O error, nothing is raised to the caller; an I/O error is printed as
  "Error saving tracking file: ..." after the attempt, and a \<open>track\<close> that called
  \<open>persist()\<close> returns normally with its new history in memory.
\<close>

theorem save_history_frame:
  "after (save_history h self) = self
 \<and> (json_dump h (tracking_file self) (history self) = None \<longrightarrow>
      result (save_history h self) = Inr ()
    \<and> trace (save_history h self) = [Dump (tracking_file self) (history self)])
 \<and> (\<forall>e. json_dump h (tracking_file self) (history self) = Some e \<and> isinstance e IOError \<longrightarrow>
      result (save_history h self) = Inr ()
    \<and> trace (save_history h self)
        = [Dump (tracking_file self) (history self),
           Printed (''Error saving tracking file: '' @ exn_msg e)])
 \<and> (\<forall>e v t pc. path_exists h (resolved self v)
      \<and> json_dump h (tracking_file self) (history (after (track_video h self v t pc))) = Some e
      \<and> isinstance e IOError \<longrightarrow>
      result (track_video h self v t pc) = Inr ()
    \<and> map fst (entries (history (after (track_video h self v t pc)))) = [basename (resolved self v)])"
proof -
  have 1: "after (save_history h self) = self"
    by (rule save_history_after)
  have 2: "json_dump h (tracking_file self) (history self) = None \<longrightarrow>
      result (save_history h self) = Inr ()
    \<and> trace (save_history h self) = [Dump (tracking_file self) (history self)]"
    by (simp add: save_history_completes)
  have 3: "\<forall>e. json_dump h (tracking_file self) (history self) = Some e \<and> isinstance e IOError \<longrightarrow>
      result (save_history h self) = Inr ()
    \<and> trace (save_history h self)
        = [Dump (tracking_file self) (history self),
           Printed (''Error saving tracking file: '' @ exn_msg e)]"
    by (simp add: save_history_io_error)
  have 4: "\<forall>e v t pc. path_exists h (resolved self v)
      \<and> json_dump h (tracking_file self) (history (after (track_video h self v t pc))) = Some e
      \<and> isinstance e IOError \<longrightarrow>
      result (track_video h self v t pc) = Inr ()
    \<and> map fst (entries (history (after (track_video h self v t pc)))) = [basename (resolved self v)]"
  proof (intro allI impI, elim conjE)
    fix e v t pc
    assume e: "path_exists h (resolved self v)"
      and d: "json_dump h (tracking_file self) (history (after (track_video h self v t pc))) = Some e"
      and i: "isinstance e IOError"
    let ?s = "self\<lparr>history :=
             JObj [(basename (resolved self v),
                    JObj [(''last_watched'', if t = JNull then JStr (now_isoformat h) else t),
                          (''watched_percentage'', pc),
                          (''full_path'', JStr (resolved self v))])]\<rparr>"
    have tv: "track_video h self v t pc = save_history h ?s"
      by (rule track_video_found [OF e])
    then have a: "after (track_video h self v t pc) = ?s"
      by (simp add: save_history_after)
    from d have d': "json_dump h (tracking_file ?s) (history ?s) = Some e"
      unfolding a by simp
    have "result (save_history h ?s) = Inr ()"
      using d' i by (rule save_history_io_error)
    then show "result (track_video h self v t pc) = Inr ()
      \<and> map fst (entries (history (after (track_video h self v t pc)))) = [basename (resolved self v)]"
      unfolding a unfolding tv by simp
  qed
  from 1 2 3 4 show ?thesis by blast
qed

theorem save_history_frame_witness:
  "after (save_history readonly_host videos_tracker) = videos_tracker
 \<and> result (save_history readonly_host videos_tracker) = Inr ()
 \<and> trace (save_history readonly_host videos_tracker)
     = [Dump ''/videos/.tracker.json'' (JObj []),
        Printed ''Error saving tracking file: Permission denied'']
 \<and> after (save_history linux_host videos_tracker) = videos_tracker
 \<and> result (save_history linux_host videos_tracker) = Inr ()
 \<and> trace (save_history linux_host videos_tracker) = [Dump ''/videos/.tracker.json'' (JObj [])]
 \<and> result (track_video readonly_host videos_tracker ''ep1.mp4'' JNull (JInt 0)) = Inr ()
 \<and> map fst (entries (history (after
      (track_video readonly_host videos_tracker ''ep1.mp4'' JNull (JInt 0))))) = [''ep1.mp4'']"
proof -
  have d: "json_dump readonly_host = (\<lambda>p v. Some (PyExn PermissionError ''Permission denied''))"
    by (simp add: readonly_host_def)
  have d0: "json_dump linux_host = (\<lambda>p v. None)"
    by (simp add: linux_host_def)
  have i: "isinstance (PyExn PermissionError ''Permission denied'') IOError"
    by (simp add: isinstance_def)
  have e: "path_exists readonly_host (resolved videos_tracker ''ep1.mp4'')"
    by (simp add: resolved_ep1 readonly_host_def linux_host_def)
  have f: "tracking_file videos_tracker = ''/videos/.tracker.json''"
          "history videos_tracker = JObj []"
    by (simp_all add: videos_tracker_def)
  show ?thesis
    using save_history_frame [of readonly_host videos_tracker]
          save_history_frame [of linux_host videos_tracker] e
    by (simp add: d d0 i f resolved_ep1 basename_ep1)
qed


subsection \<open>The stored entry is self-consistent\<close>

text \<open>
  Claim C9. After a track whose resolved path exists, the history is one entry whose
  record has the resolved path as \<open>full_path\<close> (the argument when it is absolute,
  otherwise the tracked folder joined with it), and whose key is the basename of that
  \<open>full_path\<close>.
\<close>

theorem track_video_entry_consistent:
  assumes "path_exists h (resolved self v)"
  shows "\<exists>k r fp.
           history (after (track_video h self v t pc)) = JObj [(k, JObj r)]
         \<and> map_of r ''full_path'' = Some (JStr fp)
         \<and> k = basename fp
         \<and> fp = (if isabs v then v else join (video_folder self) v)"
  by (simp add: track_video_found [OF assms] save_history_after resolved_def)

theorem track_video_entry_consistent_witness:
  "\<exists>k r fp.
     history (after (track_video linux_host videos_tracker ''ep1.mp4'' JNull (JInt 0)))
       = JObj [(k, JObj r)]
   \<and> map_of r ''full_path'' = Some (JStr fp)
   \<and> k = ''ep1.mp4''
   \<and> fp = ''/videos/ep1.mp4''"
proof -
  have "path_exists linux_host (resolved videos_tracker ''ep1.mp4'')"
    by (simp add: resolved_ep1 linux_host_def)
  from track_video_entry_consistent [OF this, of JNull "JInt 0"] show ?thesis
    using resolved_ep1 basename_ep1 by (auto simp: resolved_def)
qed


subsection \<open>Loading returns the parsed value\<close>

text \<open>
  Claim C10. When the history file exists and \<open>json.load\<close> returns a value, \<open>load()\<close>
  returns that value as it is, and the constructor stores it as the history, whatever its
  shape: an array or a number is returned, not an empty mapping.
\<close>

theorem load_history_returns_parsed_value:
  assumes "path_exists h f" and "json_load h f = Inr v"
  shows "load_history h f = Inr v
       \<and> (f = join (abspath h folder) ''.tracker.json'' \<longrightarrow>
            init h folder = Inr \<lparr>video_folder = abspath h folder, tracking_file = f, history = v\<rparr>)"
  using assms by (auto simp: load_history_def init_def Let_def)

theorem load_history_returns_parsed_value_witness:
  "load_history array_history_host ''/videos/.tracker.json'' = Inr (JArr [JInt 1, JInt 2])
 \<and> load_history array_history_host ''/videos/.tracker.json'' \<noteq> Inr (JObj [])
 \<and> init array_history_host ''/videos''
      = Inr \<lparr>video_folder = ''/videos'', tracking_file = ''/videos/.tracker.json'',
             history = JArr [JInt 1, JInt 2]\<rparr>"
proof -
  have e: "path_exists array_history_host ''/videos/.tracker.json''"
    by (simp add: array_history_host_def)
  have l: "json_load array_history_host ''/videos/.tracker.json'' = Inr (JArr [JInt 1, JInt 2])"
    by (simp add: array_history_host_def)
  have j: "join ''/videos'' ''.tracker.json'' = ''/videos/.tracker.json''"
    by (simp add: join_def startswith_def endswith_def)
  have a: "abspath array_history_host ''/videos'' = ''/videos''"
    by (simp add: array_history_host_def linux_host_def)
  from load_history_returns_parsed_value [OF e l, of "''/videos''"] show ?thesis
    by (simp add: a j)
qed

end
